theory Spec2Isabelle
  imports Complex_Main "HOL-Library.AList"
begin

section \<open>Configuration values\<close>

text \<open>
  The values an OmegaConf configuration holds: \<open>None\<close>, booleans, integers, floats (kept
  as the rational they denote; the code only passes them on), strings, lists and
  dictionaries (insertion-ordered, so association lists).
\<close>

datatype pyval =
    PNone
  | PBool bool
  | PInt int
  | PFloat rat
  | PStr string
  | PList "pyval list"
  | PDict "(string \<times> pyval) list"

text \<open>
  The exceptions of the source. An assertion or a \<open>ValueError\<close> carries the fixed text of
  its message and the values interpolated into it. \<open>External\<close> is a failure raised by
  a collaborator (manifest reader, archive reader).
\<close>

datatype error =
    AssertionError string "pyval list"
  | ValueError string "pyval list"
  | TypeError
  | IndexError
  | KeyError
  | AttributeError string
  | External string

definition and_then :: "error + 'a \<Rightarrow> ('a \<Rightarrow> error + 'b) \<Rightarrow> error + 'b" where
  "and_then m f = (case m of Inl e \<Rightarrow> Inl e | Inr x \<Rightarrow> f x)"

text \<open>
  A configuration node (a \<open>DictConfig\<close>): its scalar and list entries by key, and, held
  apart, the value of its \<open>components\<close> key, which is a list of nodes when present.
\<close>

datatype cfg = DictConfig (entries: "(string \<times> pyval) list") (components: "cfg list option")

text \<open>\<open>config.get(k)\<close>: \<open>None\<close> for an absent key.\<close>

definition cfg_get :: "(string \<times> pyval) list \<Rightarrow> string \<Rightarrow> pyval" where
  "cfg_get config k = (case map_of config k of None \<Rightarrow> PNone | Some v \<Rightarrow> v)"

text \<open>\<open>config.k\<close>: attribute access; an absent key raises (OmegaConf 2.1 and later).\<close>

definition cfg_attr :: "(string \<times> pyval) list \<Rightarrow> string \<Rightarrow> error + pyval" where
  "cfg_attr config k = (case map_of config k of None \<Rightarrow> Inl (AttributeError k) | Some v \<Rightarrow> Inr v)"

subsection \<open>Python's sequence protocol on configuration values\<close>

text \<open>\<open>isinstance(x, (int, float))\<close>; \<open>bool\<close> is a subclass of \<open>int\<close>.\<close>

fun is_number :: "pyval \<Rightarrow> bool" where
  "is_number (PInt _) = True"
| "is_number (PFloat _) = True"
| "is_number (PBool _) = True"
| "is_number _ = False"

text \<open>\<open>isinstance(x, (str, Path))\<close>: a configuration holds no \<open>Path\<close> objects.\<close>

fun is_str :: "pyval \<Rightarrow> bool" where
  "is_str (PStr _) = True"
| "is_str _ = False"

text \<open>\<open>isinstance(x, Sequence)\<close>.\<close>

fun is_sequence :: "pyval \<Rightarrow> bool" where
  "is_sequence (PList _) = True"
| "is_sequence (PStr _) = True"
| "is_sequence _ = False"

text \<open>\<open>iter(x)\<close>: a string yields its characters, a dictionary its keys.\<close>

fun py_iter :: "pyval \<Rightarrow> error + pyval list" where
  "py_iter (PList xs) = Inr xs"
| "py_iter (PStr s) = Inr (map (\<lambda>c. PStr [c]) s)"
| "py_iter (PDict d) = Inr (map (\<lambda>kv. PStr (fst kv)) d)"
| "py_iter _ = Inl TypeError"

fun py_len :: "pyval \<Rightarrow> error + nat" where
  "py_len (PList xs) = Inr (length xs)"
| "py_len (PStr s) = Inr (length s)"
| "py_len (PDict d) = Inr (length d)"
| "py_len _ = Inl TypeError"

text \<open>\<open>x[i]\<close> for a non-negative index \<open>i\<close>.\<close>

fun py_index :: "pyval \<Rightarrow> nat \<Rightarrow> error + pyval" where
  "py_index (PList xs) i = (if i < length xs then Inr (xs ! i) else Inl IndexError)"
| "py_index (PStr s) i = (if i < length s then Inr (PStr [s ! i]) else Inl IndexError)"
| "py_index (PDict d) i = Inl KeyError"
| "py_index _ i = Inl TypeError"

text \<open>The destructuring \<open>(tar_path,) = x\<close>: exactly one element, or a \<open>ValueError\<close>.\<close>

definition unpack1 :: "pyval \<Rightarrow> error + pyval" where
  "unpack1 x = and_then (py_iter x) (\<lambda>ys.
     case ys of [y] \<Rightarrow> Inr y | _ \<Rightarrow> Inl (ValueError ''wrong number of values to unpack'' []))"

text \<open>The destructuring \<open>path, weight = item\<close>.\<close>

definition unpack2 :: "pyval \<Rightarrow> error + pyval \<times> pyval" where
  "unpack2 x = and_then (py_iter x) (\<lambda>ys.
     case ys of [y, z] \<Rightarrow> Inr (y, z) | _ \<Rightarrow> Inl (ValueError ''wrong number of values to unpack'' []))"

section \<open>Streams as the calls that build them\<close>

text \<open>
  The manifest iterators of \<open>nemo_adapters\<close>, by their constructor arguments:
  \<open>LazyNeMoIterator(path, missing_sampling_rate_ok, text_field, lang_field)\<close> and
  \<open>LazyNeMoTarredIterator(manifest_path, tar_paths, shuffle_shards, text_field, lang_field)\<close>.
\<close>

datatype nemo_iter =
    LazyNeMoIterator pyval pyval pyval pyval
  | LazyNeMoTarredIterator pyval pyval pyval pyval pyval

text \<open>
  A \<open>CutSet\<close>, by the lhotse calls that build it: \<open>CutSet(iterator)\<close>,
  \<open>CutSet.from_shar(in_dir, shuffle_shards=True, seed)\<close>, \<open>CutSet.from_file(path)\<close>,
  \<open>cs.repeat()\<close>, \<open>CutSet.mux(*cutsets, weights, seed)\<close>,
  \<open>CutSet.infinite_mux(*cutsets, weights, seed, max_open_streams)\<close> and
  \<open>cuts.map(partial(attach_tags, tags=tags))\<close>.
\<close>

datatype cutset =
    CutSet nemo_iter
  | FromShar pyval pyval
  | FromFile pyval
  | Repeat cutset
  | Mux "cutset list" "pyval list option" pyval
  | InfiniteMux "cutset list" "pyval list option" pyval pyval
  | MapTags pyval cutset

text \<open>
  What the code asks of its collaborators: \<open>len(nemo_iter)\<close>, \<open>nemo_iter.to_shards()\<close>
  and \<open>len(cs)\<close> of a Shar cut set. Each may fail.
\<close>

record collab =
  iter_len :: "nemo_iter \<Rightarrow> error + nat"
  to_shards :: "nemo_iter \<Rightarrow> error + nemo_iter list"
  shar_len :: "cutset \<Rightarrow> error + nat"

section \<open>The multiplexer\<close>

text \<open>The default of the \<open>seed\<close> parameter of \<open>mux\<close>.\<close>

definition mux_default_seed :: pyval where
  "mux_default_seed = PStr ''trng''"

definition mux :: "cutset list \<Rightarrow> pyval list option \<Rightarrow> pyval \<Rightarrow> pyval \<Rightarrow> cutset" where
  "mux cutsets weights max_open_streams seed =
     (if max_open_streams \<noteq> PNone
      then InfiniteMux cutsets weights seed max_open_streams
      else Mux (map Repeat cutsets) weights seed)"

section \<open>Leaves: NeMo manifests\<close>

text \<open>
  One source of a multi-path leaf, lines 301 to 335 of the loop body: the iterator for
  the manifest (and its archives), its weight, and the streams and weights it appends.
\<close>

definition make_nemo_iter ::
  "(string \<times> pyval) list \<Rightarrow> bool \<Rightarrow> pyval \<Rightarrow> pyval \<Rightarrow> pyval \<Rightarrow> pyval \<Rightarrow> pyval \<Rightarrow> error + nemo_iter" where
  "make_nemo_iter config is_tarred tf lf ok manifest_path tar_path =
     (if is_tarred
      then and_then (cfg_attr config ''shuffle'') (\<lambda>sh.
             Inr (LazyNeMoTarredIterator manifest_path tar_path sh tf lf))
      else Inr (LazyNeMoIterator manifest_path ok tf lf))"

definition source_weight :: "collab \<Rightarrow> nemo_iter \<Rightarrow> pyval \<Rightarrow> error + pyval" where
  "source_weight E nemo_iter manifest_info =
     and_then (py_len manifest_info) (\<lambda>n.
       if n = 1 then and_then (iter_len E nemo_iter) (\<lambda>l. Inr (PInt (int l)))
       else if is_sequence manifest_info \<and> n = 2
               \<and> (case py_index manifest_info 1 of Inr w \<Rightarrow> is_number w | Inl _ \<Rightarrow> False)
            then py_index manifest_info 1
            else Inl (AssertionError
              ''Supported inputs types for config.manifest_filepath are: str | list[list[str]] | list[tuple[str, number]] where str is a path and number is a mixing weight (it may exceed 1.0). We got: ''
              [manifest_info]))"

definition split_source :: "collab \<Rightarrow> pyval \<Rightarrow> nemo_iter \<Rightarrow> pyval \<Rightarrow> error + cutset list \<times> pyval list" where
  "split_source E max_open_streams nemo_iter weight =
     (if max_open_streams \<noteq> PNone
      then and_then (to_shards E nemo_iter) (\<lambda>subs.
             Inr (map CutSet subs, map (\<lambda>subiter. weight) subs))
      else Inr ([CutSet nemo_iter], [weight]))"

definition nemo_source ::
  "collab \<Rightarrow> (string \<times> pyval) list \<Rightarrow> bool \<Rightarrow> pyval \<Rightarrow> pyval \<Rightarrow> pyval \<Rightarrow> pyval \<times> pyval
     \<Rightarrow> error + cutset list \<times> pyval list" where
  "nemo_source E config is_tarred tf lf ok p =
     (case p of (manifest_info, tp) \<Rightarrow>
        and_then (unpack1 tp) (\<lambda>tar_path.
        and_then (py_index manifest_info 0) (\<lambda>manifest_path.
        and_then (make_nemo_iter config is_tarred tf lf ok manifest_path tar_path) (\<lambda>nemo_iter.
        and_then (source_weight E nemo_iter manifest_info) (\<lambda>weight.
        and_then (cfg_attr config ''max_open_streams'') (\<lambda>m.
          split_source E m nemo_iter weight))))))"

text \<open>The loop over the zipped pairs; the first failing source ends it.\<close>

fun nemo_sources ::
  "collab \<Rightarrow> (string \<times> pyval) list \<Rightarrow> bool \<Rightarrow> pyval \<Rightarrow> pyval \<Rightarrow> pyval \<Rightarrow> (pyval \<times> pyval) list
     \<Rightarrow> error + cutset list \<times> pyval list" where
  "nemo_sources E config is_tarred tf lf ok [] = Inr ([], [])"
| "nemo_sources E config is_tarred tf lf ok (p # ps) =
     and_then (nemo_source E config is_tarred tf lf ok p) (\<lambda>r.
     and_then (nemo_sources E config is_tarred tf lf ok ps) (\<lambda>rs.
       Inr (fst r @ fst rs, snd r @ snd rs)))"

text \<open>
  \<open>read_nemo_manifest\<close>. A string \<open>manifest_filepath\<close> gives one stream. Otherwise
  \<open>tar_paths\<close> (line 298) is the configured list for a tarred leaf, else the endless
  \<open>repeat((None,))\<close>, of which \<open>zip\<close> takes one element per manifest; \<open>zip\<close> stops at
  the shorter of its two arguments.
\<close>

definition read_nemo_manifest :: "collab \<Rightarrow> (string \<times> pyval) list \<Rightarrow> bool \<Rightarrow> error + cutset" where
  "read_nemo_manifest E config is_tarred =
     and_then (cfg_attr config ''text_field'') (\<lambda>tf.
     and_then (cfg_attr config ''lang_field'') (\<lambda>lf.
     and_then (cfg_attr config ''missing_sampling_rate_ok'') (\<lambda>ok.
     and_then (cfg_attr config ''manifest_filepath'') (\<lambda>mf.
       if is_str mf then
         (if is_tarred
          then and_then (cfg_attr config ''tarred_audio_filepaths'') (\<lambda>tp.
               and_then (cfg_attr config ''shuffle'') (\<lambda>sh.
                 Inr (CutSet (LazyNeMoTarredIterator mf tp sh tf lf))))
          else Inr (CutSet (LazyNeMoIterator mf ok tf lf)))
       else
         and_then (if is_tarred
                   then and_then (cfg_attr config ''tarred_audio_filepaths'') (\<lambda>v. Inr (Some v))
                   else Inr None) (\<lambda>tar_paths.
         and_then (py_iter mf) (\<lambda>ms.
         and_then (case tar_paths of
                     Some v \<Rightarrow> py_iter v
                   | None \<Rightarrow> Inr (replicate (length ms) (PList [PNone]))) (\<lambda>ts.
         and_then (nemo_sources E config is_tarred tf lf ok (zip ms ts)) (\<lambda>r.
         and_then (cfg_attr config ''max_open_streams'') (\<lambda>m.
         and_then (cfg_attr config ''shard_seed'') (\<lambda>seed.
           Inr (mux (fst r) (Some (snd r)) m seed)))))))))))"


section \<open>Leaves: Lhotse manifests\<close>

text \<open>One source of a multi-path Shar leaf (lines 236 to 251).\<close>

definition shar_source :: "collab \<Rightarrow> pyval \<Rightarrow> pyval \<Rightarrow> error + cutset \<times> pyval" where
  "shar_source E shard_seed item =
     (if is_str item
      then and_then (shar_len E (FromShar item shard_seed)) (\<lambda>l.
             Inr (Repeat (FromShar item shard_seed), PInt (int l)))
      else if is_sequence item \<and> py_len item = Inr 2
                \<and> (case py_index item 1 of Inr w \<Rightarrow> is_number w | Inl _ \<Rightarrow> False)
           then and_then (unpack2 item) (\<lambda>pw.
                  Inr (Repeat (FromShar (fst pw) shard_seed), snd pw))
           else Inl (AssertionError
             ''Supported inputs types for config.shar_path are: str | list[str] | list[tuple[str, number]] where str is a path and number is a mixing weight (it may exceed 1.0). We got: ''
             [item]))"

fun shar_sources :: "collab \<Rightarrow> pyval \<Rightarrow> pyval list \<Rightarrow> error + cutset list \<times> pyval list" where
  "shar_sources E shard_seed [] = Inr ([], [])"
| "shar_sources E shard_seed (item # items) =
     and_then (shar_source E shard_seed item) (\<lambda>r.
     and_then (shar_sources E shard_seed items) (\<lambda>rs.
       Inr (fst r # fst rs, snd r # snd rs)))"

definition read_lhotse_manifest :: "collab \<Rightarrow> (string \<times> pyval) list \<Rightarrow> bool \<Rightarrow> error + cutset" where
  "read_lhotse_manifest E config is_tarred =
     (if is_tarred then
        and_then (cfg_attr config ''shard_seed'') (\<lambda>shard_seed.
        and_then (cfg_attr config ''shar_path'') (\<lambda>sp.
          if is_str sp then Inr (Repeat (FromShar sp shard_seed))
          else
            and_then (py_iter sp) (\<lambda>items.
            and_then (shar_sources E shard_seed items) (\<lambda>r.
            and_then (cfg_attr config ''max_open_streams'') (\<lambda>m.
            and_then (cfg_attr config ''shard_seed'') (\<lambda>seed.
              Inr (mux (fst r) (Some (snd r)) m seed)))))))
      else and_then (cfg_attr config ''cuts_path'') (\<lambda>cp. Inr (FromFile cp)))"

section \<open>Tags\<close>



text \<open>
  Lines 157 and 158 of \<open>parse_group\<close>: a node with \<open>tags\<close> maps \<open>attach_tags\<close> over
  its own stream.
\<close>

definition attach_extra_tags :: "(string \<times> pyval) list \<Rightarrow> cutset \<Rightarrow> cutset" where
  "attach_extra_tags grp_cfg cuts =
     (case cfg_get grp_cfg ''tags'' of PNone \<Rightarrow> cuts | extra_tags \<Rightarrow> MapTags extra_tags cuts)"

section \<open>Propagated attributes\<close>

text \<open>
  The keys of \<open>propagate_attrs\<close>, as \<open>read_dataset_config\<close> builds it; the loop of
  \<open>parse_and_combine_datasets\<close> keeps the key set.
\<close>

datatype attr_key =
  Shuffle | ShardSeed | TextField | LangField | MissingSamplingRateOk | MaxOpenStreams

fun key_name :: "attr_key \<Rightarrow> string" where
  "key_name Shuffle = ''shuffle''"
| "key_name ShardSeed = ''shard_seed''"
| "key_name TextField = ''text_field''"
| "key_name LangField = ''lang_field''"
| "key_name MissingSamplingRateOk = ''missing_sampling_rate_ok''"
| "key_name MaxOpenStreams = ''max_open_streams''"

type_synonym attrs = "(attr_key \<times> pyval) list"

text \<open>\<open>propagate_attrs.get(k)\<close>.\<close>

definition attrs_get :: "attrs \<Rightarrow> attr_key \<Rightarrow> pyval" where
  "attrs_get a k = (case map_of a k of None \<Rightarrow> PNone | Some v \<Rightarrow> v)"

text \<open>
  Lines 182 to 187. One step of the loop over \<open>propagate_attrs.items()\<close>, on the pair of
  the item and \<open>next_propagate_attrs\<close>: an absent key is assigned to the item, a present
  one overrides the value handed on.
\<close>

definition propagate_step ::
  "attr_key \<times> pyval \<Rightarrow> (string \<times> pyval) list \<times> attrs \<Rightarrow> (string \<times> pyval) list \<times> attrs" where
  "propagate_step kv st =
     (case map_of (fst st) (key_name (fst kv)) of
        None \<Rightarrow> (AList.update (key_name (fst kv)) (snd kv) (fst st), snd st)
      | Some x \<Rightarrow> (fst st, AList.update (fst kv) x (snd st)))"

definition propagate :: "attrs \<Rightarrow> (string \<times> pyval) list \<Rightarrow> (string \<times> pyval) list \<times> attrs" where
  "propagate propagate_attrs item = fold propagate_step propagate_attrs (item, propagate_attrs)"

section \<open>The resolver\<close>

definition KNOWN_DATASET_CONFIG_TYPES :: "pyval list" where
  "KNOWN_DATASET_CONFIG_TYPES =
     [PStr ''nemo'', PStr ''nemo_tarred'', PStr ''lhotse'', PStr ''lhotse_shar'', PStr ''group'']"

text \<open>The number of nodes of a configuration tree: the measure of the recursion.\<close>

fun csize :: "cfg \<Rightarrow> nat" where
  "csize (DictConfig es cs) = Suc (case cs of None \<Rightarrow> 0 | Some xs \<Rightarrow> sum_list (map csize xs))"

lemma csize_unfold:
  "csize g = Suc (case components g of None \<Rightarrow> 0 | Some xs \<Rightarrow> sum_list (map csize xs))"
  by (cases g) simp

lemma csize_components: "components g = Some xs \<Longrightarrow> sum_list (map csize xs) < csize g"
  by (cases g) simp

text \<open>
  \<open>parse_group\<close>, \<open>parse_and_combine_datasets\<close> and the loop of the latter (lines 176 to
  194), which returns \<open>cuts\<close>, \<open>weights\<close> and \<open>tarred_status\<close>.
\<close>

function parse_group :: "collab \<Rightarrow> cfg \<Rightarrow> attrs \<Rightarrow> error + cutset \<times> bool"
  and parse_and_combine_datasets :: "collab \<Rightarrow> cfg list \<Rightarrow> attrs \<Rightarrow> error + cutset \<times> bool"
  and resolve_items :: "collab \<Rightarrow> attrs \<Rightarrow> cfg list \<Rightarrow> error + cutset list \<times> pyval list \<times> bool list"
where
  "parse_group E grp_cfg propagate_attrs =
     and_then (cfg_attr (entries grp_cfg) ''type'') (\<lambda>ty.
       if ty \<notin> set KNOWN_DATASET_CONFIG_TYPES
       then Inl (AssertionError ''Unknown item type in dataset config list: grp_cfg.type='' [ty])
       else
         and_then
           (if ty = PStr ''nemo_tarred'' then
              and_then (read_nemo_manifest E (entries grp_cfg) True) (\<lambda>cuts. Inr (cuts, True))
            else if ty = PStr ''nemo'' then
              and_then (read_nemo_manifest E (entries grp_cfg) False) (\<lambda>cuts. Inr (cuts, False))
            else if ty = PStr ''lhotse_shar'' then
              and_then (read_lhotse_manifest E (entries grp_cfg) True) (\<lambda>cuts. Inr (cuts, True))
            else if ty = PStr ''lhotse'' then
              and_then (read_lhotse_manifest E (entries grp_cfg) False) (\<lambda>cuts. Inr (cuts, False))
            else if ty = PStr ''group'' then
              (case components grp_cfg of
                 None \<Rightarrow> Inl (AttributeError ''components'')
               | Some config_list \<Rightarrow> parse_and_combine_datasets E config_list propagate_attrs)
            else Inl (ValueError ''Unrecognized group: '' [ty]))
           (\<lambda>r. Inr (attach_extra_tags (entries grp_cfg) (fst r), snd r)))"
| "parse_and_combine_datasets E config_list propagate_attrs =
     (if \<not> length config_list > 0
      then Inl (AssertionError ''Empty group in dataset config list.'' [])
      else
        and_then (resolve_items E propagate_attrs config_list) (\<lambda>r.
          case r of (cuts, weights, tarred_status) \<Rightarrow>
            (case tarred_status of
               [] \<Rightarrow> Inl IndexError
             | t0 # _ \<Rightarrow>
                 if \<not> list_all (\<lambda>t. t = t0) tarred_status
                 then Inl (AssertionError ''Mixing tarred and non-tarred datasets is not supported.'' [])
                 else if length cuts \<noteq> length weights
                 then Inl (AssertionError
                   ''Missing dataset weight. When weighting datasets, every dataset must have a specified weight.'' [])
                 else Inr (mux cuts (if weights \<noteq> [] then Some weights else None)
                             (attrs_get propagate_attrs MaxOpenStreams) mux_default_seed,
                           t0))))"
| "resolve_items E propagate_attrs [] = Inr ([], [], [])"
| "resolve_items E propagate_attrs (item # rest) =
     and_then (parse_group E (DictConfig (fst (propagate propagate_attrs (entries item))) (components item))
                 (snd (propagate propagate_attrs (entries item)))) (\<lambda>r.
     and_then (resolve_items E propagate_attrs rest) (\<lambda>rs.
       case rs of (cuts, weights, tarred_status) \<Rightarrow>
         Inr (fst r # cuts,
              (case cfg_get (fst (propagate propagate_attrs (entries item))) ''weight'' of
                 PNone \<Rightarrow> weights
               | w \<Rightarrow> w # weights),
              snd r # tarred_status)))"
  by pat_completeness auto
termination
  by (relation "measure (\<lambda>x. case x of
          Inl (E, g, a) \<Rightarrow> 3 * csize g
        | Inr (Inl (E, cl, a)) \<Rightarrow> 3 * sum_list (map csize cl) + 2
        | Inr (Inr (E, a, items)) \<Rightarrow> 3 * sum_list (map csize items) + 1)")
     (auto simp: csize_unfold dest: csize_components)

declare parse_group.simps [simp del] parse_and_combine_datasets.simps [simp del]

text \<open>
  Line 190 on one item of the list: the item after the assignments of lines 182 to 187,
  resolved with its own \<open>next_propagate_attrs\<close>.
\<close>

definition resolve_child :: "collab \<Rightarrow> attrs \<Rightarrow> cfg \<Rightarrow> error + cutset \<times> bool" where
  "resolve_child E propagate_attrs item =
     parse_group E (DictConfig (fst (propagate propagate_attrs (entries item))) (components item))
       (snd (propagate propagate_attrs (entries item)))"

text \<open>A node with its \<open>tags\<close> key removed.\<close>

definition without_tags :: "cfg \<Rightarrow> cfg" where
  "without_tags g = DictConfig (filter (\<lambda>kv. fst kv \<noteq> ''tags'') (entries g)) (components g)"

section \<open>What lhotse does with the streams\<close>

text \<open>
  Modelled from the spec: lhotse's \<open>repeat\<close>, \<open>mux\<close> and \<open>infinite_mux\<close> are not part of
  the repository. A stream is infinite by construction when it restarts on exhaustion
  (\<open>repeat\<close>), when it is the output of the bounded multiplexer, or when it is the
  output of the unbounded multiplexer over streams that are; mapping keeps it so. Whether
  a source holds any record at all is outside the model.
\<close>

fun infinite_by_construction :: "cutset \<Rightarrow> bool" where
  "infinite_by_construction (Repeat c) = True"
| "infinite_by_construction (InfiniteMux cs w s m) = True"
| "infinite_by_construction (Mux cs w s) = list_all infinite_by_construction cs"
| "infinite_by_construction (MapTags t c) = infinite_by_construction c"
| "infinite_by_construction (CutSet i) = False"
| "infinite_by_construction (FromShar p s) = False"
| "infinite_by_construction (FromFile p) = False"


section \<open>Example configurations\<close>

text \<open>
  Collaborators for the examples: every manifest has 100 records, every Shar directory
  10, and a tarred manifest has four shards.
\<close>

definition ex_shards :: "nemo_iter \<Rightarrow> error + nemo_iter list" where
  "ex_shards it =
     (case it of
        LazyNeMoTarredIterator m t sh tf lf \<Rightarrow>
          Inr [LazyNeMoTarredIterator (PStr ''shard_0.json'') (PStr ''shard_0.tar'') sh tf lf,
               LazyNeMoTarredIterator (PStr ''shard_1.json'') (PStr ''shard_1.tar'') sh tf lf,
               LazyNeMoTarredIterator (PStr ''shard_2.json'') (PStr ''shard_2.tar'') sh tf lf,
               LazyNeMoTarredIterator (PStr ''shard_3.json'') (PStr ''shard_3.tar'') sh tf lf]
      | LazyNeMoIterator p ok tf lf \<Rightarrow> Inl (AttributeError ''to_shards''))"

definition ex_collab :: collab where
  "ex_collab = \<lparr>iter_len = (\<lambda>it. Inr 100), to_shards = ex_shards, shar_len = (\<lambda>cs. Inr 10)\<rparr>"

text \<open>The attributes a root configuration hands down, with a fixed shard seed.\<close>

definition ex_attrs :: attrs where
  "ex_attrs =
     [(Shuffle, PBool True), (ShardSeed, PInt 42), (TextField, PStr ''text''),
      (LangField, PStr ''lang''), (MissingSamplingRateOk, PBool False), (MaxOpenStreams, PNone)]"

definition ex_nemo :: "string \<Rightarrow> (string \<times> pyval) list \<Rightarrow> cfg" where
  "ex_nemo p extra =
     DictConfig ([(''type'', PStr ''nemo''), (''manifest_filepath'', PStr p)] @ extra) None"

definition ex_nemo_tarred :: "string \<Rightarrow> string \<Rightarrow> (string \<times> pyval) list \<Rightarrow> cfg" where
  "ex_nemo_tarred p t extra =
     DictConfig ([(''type'', PStr ''nemo_tarred''), (''manifest_filepath'', PStr p),
                  (''tarred_audio_filepaths'', PStr t)] @ extra) None"

text \<open>Two plain leaves with equal weights; two without; a tarred leaf beside a plain one.\<close>

definition ex_weighted :: "cfg list" where
  "ex_weighted =
     [ex_nemo ''a.json'' [(''weight'', PFloat (1 / 2))],
      ex_nemo ''b.json'' [(''weight'', PFloat (1 / 2))]]"

definition ex_unweighted :: "cfg list" where
  "ex_unweighted = [ex_nemo ''a.json'' [], ex_nemo ''b.json'' []]"

definition ex_mixed :: "cfg list" where
  "ex_mixed =
     [ex_nemo_tarred ''a.json'' ''a.tar'' [(''weight'', PFloat (1 / 2))],
      ex_nemo ''b.json'' [(''weight'', PFloat (1 / 2))]]"

text \<open>One node of each leaf kind, with the attributes its reader looks up, and a node of an unknown type.\<close>

definition ex_tarred_leaf :: cfg where
  "ex_tarred_leaf = DictConfig
     [(''type'', PStr ''nemo_tarred''), (''manifest_filepath'', PStr ''a.json''),
      (''tarred_audio_filepaths'', PStr ''a.tar''), (''shuffle'', PBool True),
      (''text_field'', PStr ''text''), (''lang_field'', PStr ''lang''),
      (''missing_sampling_rate_ok'', PBool False)] None"

definition ex_plain_leaf :: cfg where
  "ex_plain_leaf = DictConfig
     [(''type'', PStr ''nemo''), (''manifest_filepath'', PStr ''b.json''),
      (''text_field'', PStr ''text''), (''lang_field'', PStr ''lang''),
      (''missing_sampling_rate_ok'', PBool False)] None"

definition ex_shar_leaf :: cfg where
  "ex_shar_leaf = DictConfig
     [(''type'', PStr ''lhotse_shar''), (''shar_path'', PStr ''shar_dir''),
      (''shard_seed'', PInt 42)] None"

definition ex_lhotse_leaf :: cfg where
  "ex_lhotse_leaf = DictConfig [(''type'', PStr ''lhotse''), (''cuts_path'', PStr ''cuts.jsonl'')] None"

definition ex_unknown :: cfg where
  "ex_unknown = DictConfig [(''type'', PStr ''webdataset'')] None"

text \<open>
  A group that sets \<open>shuffle\<close> to false over one tarred leaf, beside a tarred leaf that
  sets nothing.
\<close>

definition ex_inner_group :: cfg where
  "ex_inner_group = DictConfig
     [(''type'', PStr ''group''), (''shuffle'', PBool False), (''weight'', PInt 1)]
     (Some [ex_nemo_tarred ''a.json'' ''a.tar'' [(''weight'', PInt 1)]])"

definition ex_nested :: "cfg list" where
  "ex_nested = [ex_inner_group, ex_nemo_tarred ''b.json'' ''b.tar'' [(''weight'', PInt 1)]]"









section \<open>Basic facts\<close>

lemma and_then_Inl [simp]: "and_then (Inl e) f = Inl e"
  by (simp add: and_then_def)

lemma and_then_Inr [simp]: "and_then (Inr x) f = f x"
  by (simp add: and_then_def)

lemma and_then_eq_Inr: "and_then m f = Inr y \<longleftrightarrow> (\<exists>x. m = Inr x \<and> f x = Inr y)"
  by (cases m) simp_all

lemmas ex_leaf_defs =
  ex_tarred_leaf_def ex_plain_leaf_def ex_shar_leaf_def ex_lhotse_leaf_def ex_unknown_def

lemmas ex_eval =
  ex_collab_def ex_shards_def ex_attrs_def ex_nemo_def ex_nemo_tarred_def
  ex_weighted_def ex_unweighted_def ex_mixed_def
  cfg_attr_def cfg_get_def attrs_get_def propagate_def propagate_step_def
  KNOWN_DATASET_CONFIG_TYPES_def read_nemo_manifest_def read_lhotse_manifest_def
  attach_extra_tags_def mux_def mux_default_seed_def
  parse_group.simps parse_and_combine_datasets.simps

text \<open>
  The loop of \<open>parse_and_combine_datasets\<close> resolves every item on its own: the stream
  and the status at position \<open>i\<close> are those of item \<open>i\<close>.
\<close>

lemma resolve_items_children:
  "resolve_items E a items = Inr (cuts, ws, ts) \<Longrightarrow>
     length cuts = length items \<and> length ts = length items \<and>
     (\<forall>i<length items. resolve_child E a (items ! i) = Inr (cuts ! i, ts ! i))"
proof (induction items arbitrary: cuts ws ts)
  case Nil
  then show ?case by simp
next
  case (Cons item rest)
  from Cons.prems obtain r cuts' ws' ts' where
    r: "resolve_child E a item = Inr r" and
    rest: "resolve_items E a rest = Inr (cuts', ws', ts')" and
    c: "cuts = fst r # cuts'" and t: "ts = snd r # ts'"
    by (auto simp: and_then_eq_Inr resolve_child_def split: prod.splits)
  from Cons.IH [OF rest] have ih: "length cuts' = length rest" "length ts' = length rest"
    "\<forall>i<length rest. resolve_child E a (rest ! i) = Inr (cuts' ! i, ts' ! i)"
    by simp_all
  show ?case
  proof (intro conjI allI impI)
    fix i assume "i < length (item # rest)"
    then show "resolve_child E a ((item # rest) ! i) = Inr (cuts ! i, ts ! i)"
      using r ih c t by (cases i) simp_all
  qed (simp_all add: c t ih)
qed

text \<open>\<open>parse_group\<close> on each known type.\<close>

lemma parse_group_leaf:
  "cfg_attr (entries g) ''type'' = Inr (PStr ''nemo_tarred'') \<Longrightarrow>
     parse_group E g a = and_then (read_nemo_manifest E (entries g) True)
        (\<lambda>cuts. Inr (attach_extra_tags (entries g) cuts, True))"
  "cfg_attr (entries g) ''type'' = Inr (PStr ''nemo'') \<Longrightarrow>
     parse_group E g a = and_then (read_nemo_manifest E (entries g) False)
        (\<lambda>cuts. Inr (attach_extra_tags (entries g) cuts, False))"
  "cfg_attr (entries g) ''type'' = Inr (PStr ''lhotse_shar'') \<Longrightarrow>
     parse_group E g a = and_then (read_lhotse_manifest E (entries g) True)
        (\<lambda>cuts. Inr (attach_extra_tags (entries g) cuts, True))"
  "cfg_attr (entries g) ''type'' = Inr (PStr ''lhotse'') \<Longrightarrow>
     parse_group E g a = and_then (read_lhotse_manifest E (entries g) False)
        (\<lambda>cuts. Inr (attach_extra_tags (entries g) cuts, False))"
  by (simp_all add: parse_group.simps KNOWN_DATASET_CONFIG_TYPES_def and_then_def split: sum.splits)

lemma parse_group_group:
  "cfg_attr (entries g) ''type'' = Inr (PStr ''group'') \<Longrightarrow> components g = Some config_list \<Longrightarrow>
     parse_group E g a = and_then (parse_and_combine_datasets E config_list a)
        (\<lambda>r. Inr (attach_extra_tags (entries g) (fst r), snd r))"
  by (simp add: parse_group.simps KNOWN_DATASET_CONFIG_TYPES_def)

section \<open>The empty group\<close>

text \<open>
  C10. An empty configuration list is refused by the first assertion of
  \<open>parse_and_combine_datasets\<close>, whatever the propagated attributes, so no stream is
  returned for it; a group node whose \<open>components\<close> list is empty fails with that error,
  and there is no child to materialise before it.
\<close>

theorem empty_group_rejected:
  "parse_and_combine_datasets E [] propagate_attrs
     = Inl (AssertionError ''Empty group in dataset config list.'' [])
   \<and> (cfg_attr (entries g) ''type'' = Inr (PStr ''group'') \<and> components g = Some []
        \<longrightarrow> parse_group E g propagate_attrs
              = Inl (AssertionError ''Empty group in dataset config list.'' []))"
  by (simp add: parse_and_combine_datasets.simps parse_group.simps KNOWN_DATASET_CONFIG_TYPES_def)

theorem empty_group_rejected_witness:
  "cfg_attr (entries (DictConfig [(''type'', PStr ''group'')] (Some []))) ''type'' = Inr (PStr ''group'')
   \<and> components (DictConfig [(''type'', PStr ''group'')] (Some [])) = Some []
   \<and> parse_group ex_collab (DictConfig [(''type'', PStr ''group'')] (Some [])) ex_attrs
       = Inl (AssertionError ''Empty group in dataset config list.'' [])"
  using empty_group_rejected [of ex_collab ex_attrs "DictConfig [(''type'', PStr ''group'')] (Some [])"]
  by (simp add: cfg_attr_def)

section \<open>Tarred and plain children\<close>

text \<open>
  C7. Let the loop over the children of a group succeed, with \<open>tarred_status\<close> the
  children's \<open>is_tarred\<close> flags in order. If two of the flags differ,
  \<open>parse_and_combine_datasets\<close> fails with the assertion error on mixing tarred and
  non-tarred datasets, so it returns no stream; and whenever it returns, the
  \<open>is_tarred\<close> it returns is the flag of every child.
\<close>

theorem tarred_agreement:
  assumes "resolve_items E propagate_attrs config_list = Inr (cuts, weights, tarred_status)"
  shows "(\<forall>i<length config_list.
            resolve_child E propagate_attrs (config_list ! i) = Inr (cuts ! i, tarred_status ! i))
       \<and> ((\<exists>a\<in>set tarred_status. \<exists>b\<in>set tarred_status. a \<noteq> b) \<longrightarrow>
            parse_and_combine_datasets E config_list propagate_attrs
              = Inl (AssertionError ''Mixing tarred and non-tarred datasets is not supported.'' []))
       \<and> (\<forall>c t. parse_and_combine_datasets E config_list propagate_attrs = Inr (c, t) \<longrightarrow>
            (\<forall>x\<in>set tarred_status. x = t))"
proof (intro conjI)
  show "\<forall>i<length config_list.
            resolve_child E propagate_attrs (config_list ! i) = Inr (cuts ! i, tarred_status ! i)"
    using resolve_items_children [OF assms] by simp
next
  have len: "length tarred_status = length config_list"
    using resolve_items_children [OF assms] by simp
  show "(\<exists>a\<in>set tarred_status. \<exists>b\<in>set tarred_status. a \<noteq> b) \<longrightarrow>
            parse_and_combine_datasets E config_list propagate_attrs
              = Inl (AssertionError ''Mixing tarred and non-tarred datasets is not supported.'' [])"
  proof
    assume mixed: "\<exists>a\<in>set tarred_status. \<exists>b\<in>set tarred_status. a \<noteq> b"
    then obtain t0 ts where ts: "tarred_status = t0 # ts"
      by (cases tarred_status) auto
    have "\<not> list_all (\<lambda>t. t = t0) tarred_status"
    proof
      assume "list_all (\<lambda>t. t = t0) tarred_status"
      then have "\<forall>x\<in>set tarred_status. x = t0"
        by (simp only: list_all_iff)
      with mixed show False by metis
    qed
    moreover from ts len have "0 < length config_list" by auto
    ultimately show "parse_and_combine_datasets E config_list propagate_attrs
              = Inl (AssertionError ''Mixing tarred and non-tarred datasets is not supported.'' [])"
      using assms ts by (simp add: parse_and_combine_datasets.simps)
  qed
next
  show "\<forall>c t. parse_and_combine_datasets E config_list propagate_attrs = Inr (c, t) \<longrightarrow>
            (\<forall>x\<in>set tarred_status. x = t)"
  proof (intro allI impI)
    fix c t
    assume ok: "parse_and_combine_datasets E config_list propagate_attrs = Inr (c, t)"
    show "\<forall>x\<in>set tarred_status. x = t"
    proof (cases tarred_status)
      case Nil
      then show ?thesis by simp
    next
      case (Cons t0 ts)
      with ok assms have a: "list_all (\<lambda>x. x = t0) tarred_status" and b: "t0 = t"
        by (simp_all add: parse_and_combine_datasets.simps split: if_splits)
      from a have "\<forall>x\<in>set tarred_status. x = t0"
        unfolding list_all_iff .
      with b show ?thesis by blast
    qed
  qed
qed

theorem tarred_agreement_witness:
  "resolve_items ex_collab ex_attrs ex_mixed =
     Inr ([CutSet (LazyNeMoTarredIterator (PStr ''a.json'') (PStr ''a.tar'') (PBool True)
                     (PStr ''text'') (PStr ''lang'')),
           CutSet (LazyNeMoIterator (PStr ''b.json'') (PBool False) (PStr ''text'') (PStr ''lang''))],
          [PFloat (1 / 2), PFloat (1 / 2)], [True, False])
   \<and> parse_and_combine_datasets ex_collab ex_mixed ex_attrs
       = Inl (AssertionError ''Mixing tarred and non-tarred datasets is not supported.'' [])"
proof -
  have h: "resolve_items ex_collab ex_attrs ex_mixed =
     Inr ([CutSet (LazyNeMoTarredIterator (PStr ''a.json'') (PStr ''a.tar'') (PBool True)
                     (PStr ''text'') (PStr ''lang'')),
           CutSet (LazyNeMoIterator (PStr ''b.json'') (PBool False) (PStr ''text'') (PStr ''lang''))],
          [PFloat (1 / 2), PFloat (1 / 2)], [True, False])"
    by (simp add: ex_eval)
  have m: "\<exists>a\<in>set [True, False]. \<exists>b\<in>set [True, False]. a \<noteq> b"
    by auto
  from tarred_agreement [OF h] m
  have "parse_and_combine_datasets ex_collab ex_mixed ex_attrs
       = Inl (AssertionError ''Mixing tarred and non-tarred datasets is not supported.'' [])"
    by blast
  with h show ?thesis by (intro conjI)
qed

section \<open>Weights of the children\<close>

text \<open>
  C1. A group of two leaves, neither with a \<open>weight\<close>. The claim has such a group
  resolve, the multiplexer being called without weights, and line 200 prepares for it
  (\<open>weights if weights else None\<close>); but the assertion of line 197 compares the
  number of streams with the number of weights, so the group is refused with the
  error on a missing dataset weight.
\<close>

theorem no_weights_rejected:
  "parse_and_combine_datasets ex_collab ex_unweighted ex_attrs
     = Inl (AssertionError
         ''Missing dataset weight. When weighting datasets, every dataset must have a specified weight.'' [])"
  by (simp add: ex_eval)

section \<open>The seed of a group's multiplexer\<close>

text \<open>
  C2. A group of two weighted leaves under propagated attributes whose \<open>shard_seed\<close> is
  42. The claim has the group's multiplexer called with the propagated seed; line 200
  passes no seed, so the stream is built with the default \<open>trng\<close> of \<open>mux\<close>. The
  propagated \<open>max_open_streams\<close> (here \<open>None\<close>) is passed.
\<close>

theorem group_mux_seed_default:
  "attrs_get ex_attrs ShardSeed = PInt 42
   \<and> parse_and_combine_datasets ex_collab ex_weighted ex_attrs
     = Inr (Mux [Repeat (CutSet (LazyNeMoIterator (PStr ''a.json'') (PBool False)
                                   (PStr ''text'') (PStr ''lang''))),
                 Repeat (CutSet (LazyNeMoIterator (PStr ''b.json'') (PBool False)
                                   (PStr ''text'') (PStr ''lang'')))]
              (Some [PFloat (1 / 2), PFloat (1 / 2)]) (PStr ''trng''),
            False)"
  by (simp add: ex_eval)

section \<open>Dispatch on the type of a node\<close>

text \<open>
  C8. A node whose declared \<open>type\<close> is none of the five known ones is refused by the
  assertion of line 139, whose message carries the type value. On a node of one of the
  four leaf kinds, \<open>parse_group\<close> is the leaf's reader followed by the tags of the node,
  and the \<open>is_tarred\<close> it returns is the constant of the kind: true for \<open>nemo_tarred\<close>
  and \<open>lhotse_shar\<close>, false for \<open>nemo\<close> and \<open>lhotse\<close>; it returns whenever the reader
  does.
\<close>

theorem dispatch_on_type:
  "(cfg_attr (entries g) ''type'' = Inr ty \<and> ty \<notin> set KNOWN_DATASET_CONFIG_TYPES \<longrightarrow>
      parse_group E g a
        = Inl (AssertionError ''Unknown item type in dataset config list: grp_cfg.type='' [ty]))
   \<and> (cfg_attr (entries g) ''type'' = Inr (PStr ''nemo_tarred'') \<longrightarrow>
        parse_group E g a = and_then (read_nemo_manifest E (entries g) True)
          (\<lambda>cuts. Inr (attach_extra_tags (entries g) cuts, True)))
   \<and> (cfg_attr (entries g) ''type'' = Inr (PStr ''nemo'') \<longrightarrow>
        parse_group E g a = and_then (read_nemo_manifest E (entries g) False)
          (\<lambda>cuts. Inr (attach_extra_tags (entries g) cuts, False)))
   \<and> (cfg_attr (entries g) ''type'' = Inr (PStr ''lhotse_shar'') \<longrightarrow>
        parse_group E g a = and_then (read_lhotse_manifest E (entries g) True)
          (\<lambda>cuts. Inr (attach_extra_tags (entries g) cuts, True)))
   \<and> (cfg_attr (entries g) ''type'' = Inr (PStr ''lhotse'') \<longrightarrow>
        parse_group E g a = and_then (read_lhotse_manifest E (entries g) False)
          (\<lambda>cuts. Inr (attach_extra_tags (entries g) cuts, False)))"
  using parse_group_leaf [of g E a]
  by (simp add: parse_group.simps [of E g a])

theorem dispatch_on_type_witness:
  "parse_group ex_collab ex_unknown ex_attrs
     = Inl (AssertionError ''Unknown item type in dataset config list: grp_cfg.type='' [PStr ''webdataset''])
   \<and> parse_group ex_collab ex_tarred_leaf ex_attrs
     = Inr (CutSet (LazyNeMoTarredIterator (PStr ''a.json'') (PStr ''a.tar'') (PBool True)
                      (PStr ''text'') (PStr ''lang'')), True)
   \<and> parse_group ex_collab ex_plain_leaf ex_attrs
     = Inr (CutSet (LazyNeMoIterator (PStr ''b.json'') (PBool False) (PStr ''text'') (PStr ''lang'')), False)
   \<and> parse_group ex_collab ex_shar_leaf ex_attrs
     = Inr (Repeat (FromShar (PStr ''shar_dir'') (PInt 42)), True)
   \<and> parse_group ex_collab ex_lhotse_leaf ex_attrs
     = Inr (FromFile (PStr ''cuts.jsonl''), False)"
  using dispatch_on_type [of ex_unknown "PStr ''webdataset''" ex_collab ex_attrs]
        dispatch_on_type [of ex_tarred_leaf _ ex_collab ex_attrs]
        dispatch_on_type [of ex_plain_leaf _ ex_collab ex_attrs]
        dispatch_on_type [of ex_shar_leaf _ ex_collab ex_attrs]
        dispatch_on_type [of ex_lhotse_leaf _ ex_collab ex_attrs]
  by (simp add: ex_leaf_defs cfg_attr_def cfg_get_def KNOWN_DATASET_CONFIG_TYPES_def
        read_nemo_manifest_def read_lhotse_manifest_def attach_extra_tags_def)

section \<open>The strategy of the multiplexer\<close>

text \<open>
  C6. \<open>mux\<close> chooses by \<open>max_open_streams\<close>: when it is \<open>None\<close>, every input is wrapped
  in \<open>repeat\<close> and the wrapped streams go to the unbounded \<open>CutSet.mux\<close>; when it is set,
  the inputs go as they are to \<open>CutSet.infinite_mux\<close> with that cap. Either way the
  result is infinite by construction.
\<close>

theorem mux_strategy:
  "(max_open_streams = PNone \<longrightarrow>
      mux cutsets weights max_open_streams seed = Mux (map Repeat cutsets) weights seed)
   \<and> (max_open_streams \<noteq> PNone \<longrightarrow>
      mux cutsets weights max_open_streams seed = InfiniteMux cutsets weights seed max_open_streams)
   \<and> infinite_by_construction (mux cutsets weights max_open_streams seed)"
  by (simp add: mux_def list_all_iff)

theorem mux_strategy_witness:
  "mux [FromFile (PStr ''a''), FromFile (PStr ''b'')] None PNone (PInt 0)
     = Mux [Repeat (FromFile (PStr ''a'')), Repeat (FromFile (PStr ''b''))] None (PInt 0)
   \<and> PInt 2 \<noteq> PNone
   \<and> mux [FromFile (PStr ''a''), FromFile (PStr ''b'')] None (PInt 2) (PInt 0)
     = InfiniteMux [FromFile (PStr ''a''), FromFile (PStr ''b'')] None (PInt 0) (PInt 2)
   \<and> \<not> infinite_by_construction (FromFile (PStr ''a''))
   \<and> infinite_by_construction (mux [FromFile (PStr ''a''), FromFile (PStr ''b'')] None PNone (PInt 0))"
  using mux_strategy [of PNone "[FromFile (PStr ''a''), FromFile (PStr ''b'')]" None "PInt 0"]
        mux_strategy [of "PInt 2" "[FromFile (PStr ''a''), FromFile (PStr ''b'')]" None "PInt 0"]
  by simp

section \<open>Propagated attributes reach the children\<close>

lemma key_name_inj: "key_name a = key_name b \<longleftrightarrow> a = b"
  by (cases a; cases b; simp)

lemma propagate_step_item:
  "fst (propagate_step kv st) =
     (case map_of (fst st) (key_name (fst kv)) of
        None \<Rightarrow> AList.update (key_name (fst kv)) (snd kv) (fst st) | Some x \<Rightarrow> fst st)"
  by (simp add: propagate_step_def split: option.splits)

lemma fold_propagate_item:
  "map_of (fst (fold propagate_step ps st)) s =
     (case map_of (fst st) s of
        Some x \<Rightarrow> Some x
      | None \<Rightarrow> map_of (map (\<lambda>kv. (key_name (fst kv), snd kv)) ps) s)"
proof (induction ps arbitrary: st)
  case Nil
  then show ?case by (simp split: option.splits)
next
  case (Cons kv ps)
  show ?case
  proof (cases "map_of (fst st) (key_name (fst kv))")
    case None
    then have "fst (propagate_step kv st) = AList.update (key_name (fst kv)) (snd kv) (fst st)"
      by (simp add: propagate_step_def)
    with None show ?thesis
      by (simp add: Cons.IH update_conv' split: option.splits)
  next
    case (Some x)
    then have "fst (propagate_step kv st) = fst st"
      by (simp add: propagate_step_def)
    with Some show ?thesis
      by (auto simp add: Cons.IH split: option.splits)
  qed
qed

lemma fold_propagate_next:
  "distinct (map fst ps) \<Longrightarrow>
   map_of (snd (fold propagate_step ps st)) k =
     (if k \<in> fst ` set ps
      then (case map_of (fst st) (key_name k) of Some x \<Rightarrow> Some x | None \<Rightarrow> map_of (snd st) k)
      else map_of (snd st) k)"
proof (induction ps arbitrary: st)
  case Nil
  then show ?case by simp
next
  case (Cons kv ps)
  from Cons.prems have d: "distinct (map fst ps)" and nin: "fst kv \<notin> fst ` set ps"
    by auto
  show ?case
  proof (cases "map_of (fst st) (key_name (fst kv))")
    case None
    then have st': "propagate_step kv st = (AList.update (key_name (fst kv)) (snd kv) (fst st), snd st)"
      by (simp add: propagate_step_def)
    show ?thesis
      using None nin
      by (auto simp add: Cons.IH [OF d] st' update_conv' key_name_inj split: option.splits)
  next
    case (Some x)
    then have st': "propagate_step kv st = (fst st, AList.update (fst kv) x (snd st))"
      by (simp add: propagate_step_def)
    show ?thesis
      using Some nin
      by (auto simp add: Cons.IH [OF d] st' update_conv' key_name_inj split: option.splits)
  qed
qed

lemma propagate_item:
  "map_of (fst (propagate a item)) s =
     (case map_of item s of
        Some x \<Rightarrow> Some x
      | None \<Rightarrow> map_of (map (\<lambda>kv. (key_name (fst kv), snd kv)) a) s)"
  by (simp add: propagate_def fold_propagate_item)

lemma map_of_renamed:
  "map_of (map (\<lambda>kv. (key_name (fst kv), snd kv)) a) (key_name k) = map_of a k"
  by (induction a) (auto simp add: key_name_inj)

lemma propagate_next:
  assumes "distinct (map fst a)"
  shows "map_of (snd (propagate a item)) k =
     (case map_of a k of
        None \<Rightarrow> None
      | Some v \<Rightarrow> (case map_of item (key_name k) of Some x \<Rightarrow> Some x | None \<Rightarrow> Some v))"
proof (cases "map_of a k")
  case None
  then have "k \<notin> fst ` set a"
    by (simp add: map_of_eq_None_iff)
  with None show ?thesis
    using assms by (simp add: propagate_def fold_propagate_next)
next
  case (Some v)
  then have "k \<in> fst ` set a"
    by (metis map_of_eq_None_iff option.distinct(1))
  with Some show ?thesis
    using assms by (simp add: propagate_def fold_propagate_next split: option.splits)
qed

lemma propagate_keeps_type:
  "cfg_attr item ''type'' = Inr ty \<Longrightarrow> cfg_attr (fst (propagate a item)) ''type'' = Inr ty"
  by (auto simp add: cfg_attr_def propagate_item split: option.splits)

text \<open>
  C4. Let \<open>k\<close> be a propagated key with inherited value \<open>v\<close>, and take any child of the
  list. If the child sets \<open>k\<close> itself, to \<open>x\<close>, then the child keeps \<open>x\<close> and \<open>x\<close> is the
  value of \<open>k\<close> in the attributes handed to the child's resolution; if it does not,
  \<open>v\<close> is assigned to the child and handed on. A child that is a group resolves its own
  components with the attributes so handed on. Every child of the list is resolved from
  the list's own inherited attributes, whatever its siblings set.
\<close>

theorem propagation_override:
  assumes "distinct (map fst propagate_attrs)" and "map_of propagate_attrs k = Some v"
  shows "(case map_of (entries child) (key_name k) of
            Some x \<Rightarrow>
              cfg_attr (fst (propagate propagate_attrs (entries child))) (key_name k) = Inr x
              \<and> map_of (snd (propagate propagate_attrs (entries child))) k = Some x
          | None \<Rightarrow>
              cfg_attr (fst (propagate propagate_attrs (entries child))) (key_name k) = Inr v
              \<and> map_of (snd (propagate propagate_attrs (entries child))) k = Some v)
       \<and> (cfg_attr (entries child) ''type'' = Inr (PStr ''group'') \<and> components child = Some config_list \<longrightarrow>
            resolve_child E propagate_attrs child
              = and_then (parse_and_combine_datasets E config_list
                            (snd (propagate propagate_attrs (entries child))))
                  (\<lambda>r. Inr (attach_extra_tags (fst (propagate propagate_attrs (entries child))) (fst r), snd r)))
       \<and> (resolve_items E propagate_attrs siblings = Inr (cuts, weights, tarred_status) \<longrightarrow>
            (\<forall>i<length siblings.
               resolve_child E propagate_attrs (siblings ! i) = Inr (cuts ! i, tarred_status ! i)))"
proof (intro conjI)
  show "case map_of (entries child) (key_name k) of
            Some x \<Rightarrow>
              cfg_attr (fst (propagate propagate_attrs (entries child))) (key_name k) = Inr x
              \<and> map_of (snd (propagate propagate_attrs (entries child))) k = Some x
          | None \<Rightarrow>
              cfg_attr (fst (propagate propagate_attrs (entries child))) (key_name k) = Inr v
              \<and> map_of (snd (propagate propagate_attrs (entries child))) k = Some v"
    using assms
    by (simp add: cfg_attr_def propagate_item propagate_next map_of_renamed split: option.splits)
next
  show "cfg_attr (entries child) ''type'' = Inr (PStr ''group'') \<and> components child = Some config_list \<longrightarrow>
            resolve_child E propagate_attrs child
              = and_then (parse_and_combine_datasets E config_list
                            (snd (propagate propagate_attrs (entries child))))
                  (\<lambda>r. Inr (attach_extra_tags (fst (propagate propagate_attrs (entries child))) (fst r), snd r))"
    by (auto simp add: resolve_child_def parse_group_group propagate_keeps_type)
next
  show "resolve_items E propagate_attrs siblings = Inr (cuts, weights, tarred_status) \<longrightarrow>
            (\<forall>i<length siblings.
               resolve_child E propagate_attrs (siblings ! i) = Inr (cuts ! i, tarred_status ! i))"
    using resolve_items_children by blast
qed

theorem propagation_override_witness:
  "distinct (map fst ex_attrs) \<and> map_of ex_attrs Shuffle = Some (PBool True)
   \<and> map_of (entries ex_inner_group) (key_name Shuffle) = Some (PBool False)
   \<and> cfg_attr (fst (propagate ex_attrs (entries ex_inner_group))) ''shuffle'' = Inr (PBool False)
   \<and> map_of (snd (propagate ex_attrs (entries ex_inner_group))) Shuffle = Some (PBool False)
   \<and> cfg_attr (entries ex_inner_group) ''type'' = Inr (PStr ''group'')
   \<and> components ex_inner_group = Some [ex_nemo_tarred ''a.json'' ''a.tar'' [(''weight'', PInt 1)]]
   \<and> resolve_child ex_collab ex_attrs ex_inner_group
       = and_then (parse_and_combine_datasets ex_collab
                     [ex_nemo_tarred ''a.json'' ''a.tar'' [(''weight'', PInt 1)]]
                     (snd (propagate ex_attrs (entries ex_inner_group))))
           (\<lambda>r. Inr (attach_extra_tags (fst (propagate ex_attrs (entries ex_inner_group))) (fst r),
                      snd r))
   \<and> map_of (entries (ex_nested ! 1)) (key_name Shuffle) = None
   \<and> cfg_attr (fst (propagate ex_attrs (entries (ex_nested ! 1)))) ''shuffle'' = Inr (PBool True)
   \<and> map_of (snd (propagate ex_attrs (entries (ex_nested ! 1)))) Shuffle = Some (PBool True)
   \<and> resolve_child ex_collab ex_attrs (ex_nested ! 0)
       = Inr (Mux [Repeat (CutSet (LazyNeMoTarredIterator (PStr ''a.json'') (PStr ''a.tar'')
                                     (PBool False) (PStr ''text'') (PStr ''lang'')))]
                (Some [PInt 1]) (PStr ''trng''), True)
   \<and> resolve_child ex_collab ex_attrs (ex_nested ! 1)
       = Inr (CutSet (LazyNeMoTarredIterator (PStr ''b.json'') (PStr ''b.tar'')
                        (PBool True) (PStr ''text'') (PStr ''lang'')), True)"
proof -
  have d: "distinct (map fst ex_attrs)" and m: "map_of ex_attrs Shuffle = Some (PBool True)"
    by (simp_all add: ex_attrs_def)
  have e0: "map_of (entries ex_inner_group) (key_name Shuffle) = Some (PBool False)"
    by (simp add: ex_inner_group_def)
  have e1: "map_of (entries (ex_nested ! 1)) (key_name Shuffle) = None"
    by (simp add: ex_nested_def ex_nemo_tarred_def)
  have h: "resolve_items ex_collab ex_attrs ex_nested =
     Inr ([Mux [Repeat (CutSet (LazyNeMoTarredIterator (PStr ''a.json'') (PStr ''a.tar'')
                                     (PBool False) (PStr ''text'') (PStr ''lang'')))]
                (Some [PInt 1]) (PStr ''trng''),
           CutSet (LazyNeMoTarredIterator (PStr ''b.json'') (PStr ''b.tar'')
                        (PBool True) (PStr ''text'') (PStr ''lang''))],
          [PInt 1, PInt 1], [True, True])"
    by (simp add: ex_nested_def ex_inner_group_def ex_eval)
  have g: "cfg_attr (entries ex_inner_group) ''type'' = Inr (PStr ''group'')"
    "components ex_inner_group = Some [ex_nemo_tarred ''a.json'' ''a.tar'' [(''weight'', PInt 1)]]"
    by (simp_all add: ex_inner_group_def cfg_attr_def)
  note T0 = propagation_override [OF d m, of ex_inner_group
              "[ex_nemo_tarred ''a.json'' ''a.tar'' [(''weight'', PInt 1)]]" ex_collab ex_nested _ _ _]
  from T0 g have down:
    "resolve_child ex_collab ex_attrs ex_inner_group
       = and_then (parse_and_combine_datasets ex_collab
                     [ex_nemo_tarred ''a.json'' ''a.tar'' [(''weight'', PInt 1)]]
                     (snd (propagate ex_attrs (entries ex_inner_group))))
           (\<lambda>r. Inr (attach_extra_tags (fst (propagate ex_attrs (entries ex_inner_group))) (fst r),
                      snd r))"
    by blast
  note T1 = propagation_override [OF d m, of "ex_nested ! 1" "[]" ex_collab ex_nested _ _ _]
  from T0 e0 have p0:
    "cfg_attr (fst (propagate ex_attrs (entries ex_inner_group))) ''shuffle'' = Inr (PBool False)
     \<and> map_of (snd (propagate ex_attrs (entries ex_inner_group))) Shuffle = Some (PBool False)"
    by simp
  from T1 e1 have p1:
    "cfg_attr (fst (propagate ex_attrs (entries (ex_nested ! 1)))) ''shuffle'' = Inr (PBool True)
     \<and> map_of (snd (propagate ex_attrs (entries (ex_nested ! 1)))) Shuffle = Some (PBool True)"
    by simp
  from T0 h have "\<forall>i<length ex_nested.
      resolve_child ex_collab ex_attrs (ex_nested ! i) =
        Inr ([Mux [Repeat (CutSet (LazyNeMoTarredIterator (PStr ''a.json'') (PStr ''a.tar'')
                                     (PBool False) (PStr ''text'') (PStr ''lang'')))]
                (Some [PInt 1]) (PStr ''trng''),
           CutSet (LazyNeMoTarredIterator (PStr ''b.json'') (PStr ''b.tar'')
                        (PBool True) (PStr ''text'') (PStr ''lang''))] ! i, [True, True] ! i)"
    by blast
  from this [rule_format, of 0] this [rule_format, of 1]
  have c: "resolve_child ex_collab ex_attrs (ex_nested ! 0)
       = Inr (Mux [Repeat (CutSet (LazyNeMoTarredIterator (PStr ''a.json'') (PStr ''a.tar'')
                                     (PBool False) (PStr ''text'') (PStr ''lang'')))]
                (Some [PInt 1]) (PStr ''trng''), True)
     \<and> resolve_child ex_collab ex_attrs (ex_nested ! 1)
       = Inr (CutSet (LazyNeMoTarredIterator (PStr ''b.json'') (PStr ''b.tar'')
                        (PBool True) (PStr ''text'') (PStr ''lang'')), True)"
    by (simp add: ex_nested_def)
  from d m e0 e1 p0 p1 c g down show ?thesis by blast
qed


section \<open>Splitting a source into shards\<close>






section \<open>Manifest and archive lists of different lengths\<close>








section \<open>Tags\<close>










lemma without_tags_sel [simp]:
  "entries (without_tags g) = filter (\<lambda>kv. fst kv \<noteq> ''tags'') (entries g)"
  "components (without_tags g) = components g"
  by (simp_all add: without_tags_def)


lemma key_name_not_tags [simp]: "key_name k \<noteq> ''tags''" "''tags'' \<noteq> key_name k"
  by (cases k; simp)+










end
